theory Spec2Isabelle
  imports Main "HOL-Library.Sublist"
begin

section \<open>Form errors and their paths (errors.ts)\<close>

text \<open>
  A path segment is a property name or an array index
  (\<^verbatim>\<open>readonly (string | number)[]\<close>). Ramda's \<^verbatim>\<open>equals\<close> on two such arrays is
  structural equality, so it is HOL equality on \<open>seg list\<close>; a string never equals
  a number.
\<close>

datatype seg = Key string | Idx int

type_synonym FormErrorPath = "seg list"

record FormError =
  message :: string
  path :: FormErrorPath
  temporary :: "bool option"

type_synonym FormErrors = "FormError list"

text \<open>
  \<^verbatim>\<open>errors.filter(_ => equals(_.path.slice(0, path.length), path ?? []))
        .map(error => ({ ...error, path: error.path.slice(path.length) }))\<close>
  \<^verbatim>\<open>slice(0, n)\<close> is \<open>take n\<close> and \<^verbatim>\<open>slice(n)\<close> is \<open>drop n\<close>, also when \<open>n\<close> exceeds the length.
\<close>

definition descendErrors :: "FormErrors \<Rightarrow> FormErrorPath \<Rightarrow> FormErrors" where
  "descendErrors es p =
     map (\<lambda>error. error\<lparr>FormError.path := drop (length p) (FormError.path error)\<rparr>)
       (filter (\<lambda>e. take (length p) (FormError.path e) = p) es)"

section \<open>Values and updaters\<close>

text \<open>
  \<^verbatim>\<open>ValueOrFactory<T, [T]>\<close> of the value-or-factory package: a plain value or a
  function of the previous value. \<^verbatim>\<open>callOrGet(v, x)\<close> calls a function on \<open>x\<close> and returns
  anything else as it is.
\<close>

datatype 'a ValueOrFactory = Value 'a | Factory "'a \<Rightarrow> 'a"

fun callOrGet :: "'a ValueOrFactory \<Rightarrow> 'a \<Rightarrow> 'a" where
  "callOrGet (Value v) x = v"
| "callOrGet (Factory f) x = f x"

text \<open>
  Form values are plain data: \<^verbatim>\<open>undefined\<close>, \<^verbatim>\<open>null\<close>, booleans, (integral) numbers,
  strings and objects. An object is the list of its own enumerable properties; a key
  is looked up with \<open>map_of\<close>, so the order of the entries is not observable through
  property access. Arrays and function-valued properties are not modelled, and keys
  are taken to name own data properties, never inherited ones.
\<close>

datatype jsval =
    Undefined
  | Null
  | Bool bool
  | Num int
  | Str string
  | Obj "(string \<times> jsval) list"

fun nullish :: "jsval \<Rightarrow> bool" where
  "nullish Undefined = True"
| "nullish Null = True"
| "nullish _ = False"

text \<open>The canonical decimal numeral of an index, as JavaScript names the characters of a string.\<close>

fun decimal :: "nat \<Rightarrow> string" where
  "decimal n =
     (if n < 10 then [''0123456789'' ! n]
      else decimal (n div 10) @ [''0123456789'' ! (n mod 10)])"

declare decimal.simps [simp del]

text \<open>What \<^verbatim>\<open>for (var p in obj)\<close> enumerates, with \<^verbatim>\<open>obj[p]\<close>.\<close>

fun own_entries :: "jsval \<Rightarrow> (string \<times> jsval) list" where
  "own_entries (Obj kvs) = kvs"
| "own_entries (Str s) = map (\<lambda>i. (decimal i, Str [s ! i])) [0..<length s]"
| "own_entries _ = []"

text \<open>
  \<^verbatim>\<open>result[p] = v\<close> for a name other than \<^verbatim>\<open>__proto__\<close>: an own property; an existing key
  keeps its place, a new one is added.
\<close>

fun put_entry :: "string \<Rightarrow> jsval \<Rightarrow> (string \<times> jsval) list \<Rightarrow> (string \<times> jsval) list" where
  "put_entry k v [] = [(k, v)]"
| "put_entry k v ((k', v') # kvs) =
     (if k' = k then (k, v) # kvs else (k', v') # put_entry k v kvs)"

section \<open>Lenses (ramda)\<close>

text \<open>
  \<^verbatim>\<open>lens(getter, setter)\<close>; \<^verbatim>\<open>view(l, s)\<close> is \<^verbatim>\<open>getter(s)\<close> and \<^verbatim>\<open>set(l, v, s)\<close> is
  \<^verbatim>\<open>setter(v, s)\<close>.
\<close>

datatype ('s, 'a) Lens = lens (getter: "'s \<Rightarrow> 'a") (setter: "'a \<Rightarrow> 's \<Rightarrow> 's")

definition view :: "('s, 'a) Lens \<Rightarrow> 's \<Rightarrow> 'a" where
  "view l s = getter l s"

definition set_lens :: "('s, 'a) Lens \<Rightarrow> 'a \<Rightarrow> 's \<Rightarrow> 's" where
  "set_lens l v s = setter l v s"

text \<open>
  \<^verbatim>\<open>prop(p, obj)\<close>: \<^verbatim>\<open>undefined\<close> on a nullish \<open>obj\<close>, else \<^verbatim>\<open>obj[p]\<close>; a string has its
  characters and \<^verbatim>\<open>length\<close>, a boolean or number has no own property.
\<close>

fun prop_get :: "string \<Rightarrow> jsval \<Rightarrow> jsval" where
  "prop_get p (Obj kvs) = (case map_of kvs p of None \<Rightarrow> Undefined | Some v \<Rightarrow> v)"
| "prop_get p (Str s) =
     (if p = ''length'' then Num (int (length s))
      else (case map_of (own_entries (Str s)) p of None \<Rightarrow> Undefined | Some v \<Rightarrow> v))"
| "prop_get p _ = Undefined"

text \<open>
  \<^verbatim>\<open>assoc(prop, val, obj)\<close>: \<^verbatim>\<open>result = {}\<close>, then \<^verbatim>\<open>result[p] = obj[p]\<close> for every
  enumerable property of \<open>obj\<close>, then \<^verbatim>\<open>result[prop] = val\<close>. The copy assigns, so the
  name \<^verbatim>\<open>__proto__\<close> reaches the setter that the fresh object inherits: no own property
  of that name is made, in the loop or in the last store. (A primitive value is ignored
  by the setter. An object or \<^verbatim>\<open>null\<close> becomes the prototype of the result; prototypes
  are not part of \<open>jsval\<close>, so the write-back law below is stated for objects without
  such a key.)
\<close>

definition copy_entries :: "jsval \<Rightarrow> (string \<times> jsval) list" where
  "copy_entries obj = filter (\<lambda>(p, x). p \<noteq> ''__proto__'') (own_entries obj)"

definition assoc :: "string \<Rightarrow> jsval \<Rightarrow> jsval \<Rightarrow> jsval" where
  "assoc p v obj =
     Obj (if p = ''__proto__'' then copy_entries obj
          else put_entry p v (copy_entries obj))"

definition lensProp :: "string \<Rightarrow> (jsval, jsval) Lens" where
  "lensProp k = lens (prop_get k) (assoc k)"

section \<open>The host's state (state.ts)\<close>

text \<open>
  \<^verbatim>\<open>FormInternalState\<close>, cut down to the two components fields read and write. The
  timestamps and counters of the host are not modelled.
\<close>

record 'a FormInternalState =
  "value" :: 'a
  errors :: "FormErrors option"

section \<open>Fields (field.ts)\<close>

text \<open>
  The input a field is built from. Its mutators and triggers are callbacks into the host;
  the model gives them the host's state \<open>'st\<close> to transform.
\<close>

record ('st, 'a) FieldInput =
  path :: FormErrorPath
  "value" :: 'a
  disabled :: bool
  setValue :: "'a ValueOrFactory \<Rightarrow> 'st \<Rightarrow> 'st"
  setErrors :: "FormErrors ValueOrFactory \<Rightarrow> 'st \<Rightarrow> 'st"
  errors :: "FormErrors option"
  blur :: "'st \<Rightarrow> 'st"
  commit :: "'st \<Rightarrow> 'st"
  focus :: "'st \<Rightarrow> 'st"

datatype status = focused | blurred

record ('st, 'a) FormFieldImpl = "('st, 'a) FieldInput" +
  toggle :: "status \<Rightarrow> 'st \<Rightarrow> 'st"
  setValueAndCommit :: "'a \<Rightarrow> 'st \<Rightarrow> 'st"
  selfErrors :: "FormErrors option"
  hasErrors :: bool
  hasSelfErrors :: bool

text \<open>The constructor, reached through the static \<^verbatim>\<open>FormFieldImpl.from\<close>.\<close>

definition FormFieldImpl_from :: "('st, 'a) FieldInput \<Rightarrow> ('st, 'a) FormFieldImpl" where
  "FormFieldImpl_from i =
     (let self = map_option (filter (\<lambda>e. length (FormError.path e) = 0)) (errors i) in
      \<lparr> FieldInput.path = FieldInput.path i,
        value = value i,
        disabled = disabled i,
        setValue = setValue i,
        setErrors = setErrors i,
        errors = errors i,
        blur = blur i,
        commit = commit i,
        focus = focus i,
        toggle = (\<lambda>s. case s of focused \<Rightarrow> focus i | blurred \<Rightarrow> blur i),
        setValueAndCommit = (\<lambda>v st. commit i (setValue i (Value v) st)),
        selfErrors = self,
        hasErrors = ((case errors i of None \<Rightarrow> 0 | Some es \<Rightarrow> length es) > 0),
        hasSelfErrors = ((case self of None \<Rightarrow> 0 | Some es \<Rightarrow> length es) > 0) \<rparr>)"

text \<open>
  An operator is a lens; \<^verbatim>\<open>OperatorWithPath\<close> bundles it with an optional path.
  \<^verbatim>\<open>pipe\<close> takes either.
\<close>

record ('s, 'a) OperatorWithPath =
  operator :: "('s, 'a) Lens"
  path :: "FormErrorPath option"

datatype ('s, 'a) PipeOperator =
    Bundle "('s, 'a) OperatorWithPath"
  | Bare "('s, 'a) Lens"

text \<open>
  The map of the derived \<^verbatim>\<open>setErrors\<close>:
  \<^verbatim>\<open>newErrors.map(error => ({ ...error, path: [...operator.path ?? [], ...error.path] }))\<close>
\<close>

definition ascendErrors :: "FormErrors \<Rightarrow> FormErrorPath \<Rightarrow> FormErrors" where
  "ascendErrors es p =
     map (\<lambda>error. error\<lparr>FormError.path := p @ FormError.path error\<rparr>) es"

text \<open>\<^verbatim>\<open>operator.path ?? []\<close>\<close>

definition path_or_empty :: "('s, 'a) OperatorWithPath \<Rightarrow> FormErrorPath" where
  "path_or_empty ob = (case OperatorWithPath.path ob of None \<Rightarrow> [] | Some p \<Rightarrow> p)"

text \<open>
  \<^verbatim>\<open>doPipe\<close>. A bare lens is a function and is wrapped as \<^verbatim>\<open>{ operator }\<close> first. The
  derived \<^verbatim>\<open>setValue\<close> hands the parent an updater of the parent's previous value
  \<open>prev\<close>: the new projected value is computed from \<^verbatim>\<open>view(operator, prev)\<close> and is set
  into \<^verbatim>\<open>this.value\<close>. The path of the result is
  \<^verbatim>\<open>[...this.path, ...this.path !== undefined ? this.path : []]\<close>, where the spread
  applies to the whole conditional and \<^verbatim>\<open>this.path\<close>, already spread once, is defined.
\<close>

function doPipe ::
  "('st, 'a) FormFieldImpl \<Rightarrow> ('a, 'n) PipeOperator \<Rightarrow> ('st, 'n) FormFieldImpl" where
  "doPipe this (Bare l) = doPipe this (Bundle \<lparr> operator = l, path = None \<rparr>)"
| "doPipe this (Bundle ob) =
     (let newValue = view (operator ob) (value this);
          newSetValue = (\<lambda>newValue.
            setValue this (Factory (\<lambda>prev.
              set_lens (operator ob)
                (callOrGet newValue (view (operator ob) prev)) (value this))));
          errs = descendErrors (case errors this of None \<Rightarrow> [] | Some es \<Rightarrow> es)
                   (path_or_empty ob);
          newSetErrors = (\<lambda>newErrors.
            setErrors this (Factory (\<lambda>prevErrors.
              ascendErrors (callOrGet newErrors (descendErrors prevErrors (path_or_empty ob)))
                (path_or_empty ob))))
      in FormFieldImpl_from
           \<lparr> FieldInput.path = FieldInput.path this @ FieldInput.path this,
             value = newValue,
             disabled = disabled this,
             setValue = newSetValue,
             setErrors = newSetErrors,
             errors = Some errs,
             blur = blur this,
             commit = commit this,
             focus = focus this \<rparr>)"
  by pat_completeness auto
termination
  by (relation "measure (\<lambda>(this, ob). case ob of Bare _ \<Rightarrow> 1 | Bundle _ \<Rightarrow> 0)") auto

text \<open>The operators of the \<^verbatim>\<open>FormField\<close> namespace.\<close>

definition FormField_prop :: "string \<Rightarrow> (jsval, jsval) OperatorWithPath" where
  "FormField_prop key = \<lparr> operator = lensProp key, path = Some [Key key] \<rparr>"

text \<open>\<^verbatim>\<open>lens(to, back)\<close>: the setter is called as \<^verbatim>\<open>back(v, s)\<close> and \<open>back\<close> reads only \<open>v\<close>.\<close>

definition FormField_transform :: "('i \<Rightarrow> 'o) \<Rightarrow> ('o \<Rightarrow> 'i) \<Rightarrow> ('i, 'o) Lens" where
  "FormField_transform to back = lens to (\<lambda>v s. back v)"

text \<open>\<^verbatim>\<open>transform(func, identity)\<close>; the narrowed type is a subtype, here the same type.\<close>

definition FormField_narrow :: "('i \<Rightarrow> 'i) \<Rightarrow> ('i, 'i) Lens" where
  "FormField_narrow func = FormField_transform func id"

text \<open>
  \<^verbatim>\<open>defaultTo(def)\<close> replaces a nullish value (and \<^verbatim>\<open>NaN\<close>, which \<open>Num\<close> does not hold) by
  the default; \<^verbatim>\<open>FormField.or(def)\<close> is \<^verbatim>\<open>narrow(defaultTo(def))\<close>.
\<close>

definition defaultTo :: "jsval \<Rightarrow> jsval \<Rightarrow> jsval" where
  "defaultTo d v = (if nullish v then d else v)"

definition FormField_or :: "jsval \<Rightarrow> (jsval, jsval) Lens" where
  "FormField_or def = FormField_narrow (defaultTo def)"

text \<open>The composition methods of a field.\<close>

definition doTransform ::
  "('st, 'a) FormFieldImpl \<Rightarrow> ('a \<Rightarrow> 'n) \<Rightarrow> ('n \<Rightarrow> 'a) \<Rightarrow> ('st, 'n) FormFieldImpl" where
  "doTransform this to back = doPipe this (Bare (FormField_transform to back))"

definition doNarrow ::
  "('st, 'a) FormFieldImpl \<Rightarrow> ('a \<Rightarrow> 'a) \<Rightarrow> ('st, 'a) FormFieldImpl" where
  "doNarrow this to = doPipe this (Bare (FormField_narrow to))"

text \<open>\<^verbatim>\<open>this.doNarrow(value => value ?? defaultValue)\<close>\<close>

definition doOr :: "('st, jsval) FormFieldImpl \<Rightarrow> jsval \<Rightarrow> ('st, jsval) FormFieldImpl" where
  "doOr this defaultValue =
     doNarrow this (\<lambda>value. if nullish value then defaultValue else value)"

definition doProp :: "('st, jsval) FormFieldImpl \<Rightarrow> string \<Rightarrow> ('st, jsval) FormFieldImpl" where
  "doProp this key = doPipe this (Bundle (FormField_prop key))"

section \<open>The root input\<close>

text \<open>
  Modelled from the spec: the root \<^verbatim>\<open>FieldInput\<close> that the host layer (form.ts and
  internal.ts, not among the sources) builds from its state. By the Field Input contract
  \<^verbatim>\<open>setValue\<close> and \<^verbatim>\<open>setErrors\<close> take a new value or a function of the previous one, and
  the update is relative to the state it is applied to; an undefined error list is handed
  to an updater as the empty list. The root path is empty. The triggers only stamp times,
  which the modelled state does not hold.
\<close>

definition rootInput :: "'a FormInternalState \<Rightarrow> ('a FormInternalState, 'a) FieldInput" where
  "rootInput s =
     \<lparr> FieldInput.path = [],
       value = FormInternalState.value s,
       disabled = False,
       setValue = (\<lambda>nv st.
         st\<lparr>FormInternalState.value := callOrGet nv (FormInternalState.value st)\<rparr>),
       setErrors = (\<lambda>nv st.
         st\<lparr>FormInternalState.errors :=
              Some (callOrGet nv
                (case FormInternalState.errors st of None \<Rightarrow> [] | Some es \<Rightarrow> es))\<rparr>),
       errors = FormInternalState.errors s,
       blur = id,
       commit = id,
       focus = id \<rparr>"

text \<open>An updater for the examples: \<^verbatim>\<open>n => n + 1\<close> on numbers.\<close>

definition increment :: "jsval \<Rightarrow> jsval" where
  "increment v = (case v of Num n \<Rightarrow> Num (n + 1) | _ \<Rightarrow> v)"

text \<open>
  A \<open>to\<close> for the examples that does not invert the identity:
  \<^verbatim>\<open>v => v === undefined ? undefined : 5\<close>.
\<close>

definition five_unless_undefined :: "jsval \<Rightarrow> jsval" where
  "five_unless_undefined v = (if v = Undefined then Undefined else Num 5)"

section \<open>Error scoping\<close>

lemma take_is_prefix: "take (length p) xs = p \<longleftrightarrow> prefix p xs"
  by (metis append_eq_conv_conj prefix_def)

lemma descendErrors_prefix:
  "descendErrors E P =
     map (\<lambda>e. e\<lparr>FormError.path := drop (length P) (FormError.path e)\<rparr>)
       (filter (\<lambda>e. prefix P (FormError.path e)) E)"
  by (simp add: descendErrors_def take_is_prefix)

lemma prefix_strip: "prefix P xs \<Longrightarrow> P @ drop (length P) xs = xs"
  by (auto simp: prefix_def)

lemma doProp_errors:
  "errors (doProp f k) =
     Some (descendErrors (case errors f of None \<Rightarrow> [] | Some es \<Rightarrow> es) [Key k])"
  by (simp add: doProp_def FormField_prop_def FormFieldImpl_from_def path_or_empty_def Let_def)

lemma doProp_selfErrors:
  "selfErrors (doProp f k) =
     Some (filter (\<lambda>e. length (FormError.path e) = 0)
       (descendErrors (case errors f of None \<Rightarrow> [] | Some es \<Rightarrow> es) [Key k]))"
  by (simp add: doProp_def FormField_prop_def FormFieldImpl_from_def path_or_empty_def Let_def)

text \<open>
  C4. \<open>descendErrors E P\<close> keeps, in order, exactly the errors of \<open>E\<close> whose path begins
  with \<open>P\<close>, each with its path replaced by what follows \<open>P\<close> (so that \<open>P\<close> followed by the
  new path is the old path), and it is the empty list when no path begins with \<open>P\<close>; it is
  a total function, so nothing is thrown. For a root with the errors \<open>x\<close> at \<open>a.b\<close> and \<open>y\<close>
  at \<open>c\<close>, the field of \<open>a\<close> has the one error \<open>x\<close> at \<open>b\<close>, the field of \<open>c\<close> has the one
  error \<open>y\<close> at the empty path, and the field of \<open>c\<close> has one error of its own.
\<close>

theorem descendErrors_scopes_errors:
  "descendErrors E P =
     map (\<lambda>e. e\<lparr>FormError.path := drop (length P) (FormError.path e)\<rparr>)
       (filter (\<lambda>e. prefix P (FormError.path e)) E)
   \<and> (\<forall>e \<in> set E. prefix P (FormError.path e) \<longrightarrow>
         P @ drop (length P) (FormError.path e) = FormError.path e)
   \<and> ((\<forall>e \<in> set E. \<not> prefix P (FormError.path e)) \<longrightarrow> descendErrors E P = [])
   \<and> (let root = FormFieldImpl_from
           (i\<lparr>errors := Some [\<lparr>message = ''x'', path = [Key ''a'', Key ''b''], temporary = None\<rparr>,
                              \<lparr>message = ''y'', path = [Key ''c''], temporary = None\<rparr>]\<rparr>)
       in errors (doProp root ''a'') =
            Some [\<lparr>message = ''x'', path = [Key ''b''], temporary = None\<rparr>]
        \<and> errors (doProp root ''c'') =
            Some [\<lparr>message = ''y'', path = [], temporary = None\<rparr>]
        \<and> map_option length (selfErrors (doProp root ''c'')) = Some 1)"
proof (intro conjI)
  show "descendErrors E P =
     map (\<lambda>e. e\<lparr>FormError.path := drop (length P) (FormError.path e)\<rparr>)
       (filter (\<lambda>e. prefix P (FormError.path e)) E)"
    by (rule descendErrors_prefix)
  show "\<forall>e \<in> set E. prefix P (FormError.path e) \<longrightarrow>
         P @ drop (length P) (FormError.path e) = FormError.path e"
    by (simp add: prefix_strip)
  show "(\<forall>e \<in> set E. \<not> prefix P (FormError.path e)) \<longrightarrow> descendErrors E P = []"
    by (simp add: descendErrors_prefix filter_empty_conv)
  show "let root = FormFieldImpl_from
           (i\<lparr>errors := Some [\<lparr>message = ''x'', path = [Key ''a'', Key ''b''], temporary = None\<rparr>,
                              \<lparr>message = ''y'', path = [Key ''c''], temporary = None\<rparr>]\<rparr>)
       in errors (doProp root ''a'') =
            Some [\<lparr>message = ''x'', path = [Key ''b''], temporary = None\<rparr>]
        \<and> errors (doProp root ''c'') =
            Some [\<lparr>message = ''y'', path = [], temporary = None\<rparr>]
        \<and> map_option length (selfErrors (doProp root ''c'')) = Some 1"
    by (simp add: Let_def doProp_errors doProp_selfErrors FormFieldImpl_from_def descendErrors_def)
qed

theorem descendErrors_scopes_errors_witness:
  "\<not> prefix [Key ''a''] (FormError.path \<lparr>message = ''y'', path = [Key ''c''], temporary = None\<rparr>)
   \<and> descendErrors [\<lparr>message = ''y'', path = [Key ''c''], temporary = None\<rparr>] [Key ''a''] = []
   \<and> prefix [Key ''c''] (FormError.path \<lparr>message = ''y'', path = [Key ''c''], temporary = None\<rparr>)
   \<and> descendErrors [\<lparr>message = ''y'', path = [Key ''c''], temporary = None\<rparr>] [Key ''c'']
       = [\<lparr>message = ''y'', path = [], temporary = None\<rparr>]"
  using descendErrors_scopes_errors
          [of "[\<lparr>message = ''y'', path = [Key ''c''], temporary = None\<rparr>]" "[Key ''a'']"
              "rootInput \<lparr>FormInternalState.value = Undefined, FormInternalState.errors = None\<rparr>"]
        descendErrors_scopes_errors
          [of "[\<lparr>message = ''y'', path = [Key ''c''], temporary = None\<rparr>]" "[Key ''c'']"
              "rootInput \<lparr>FormInternalState.value = Undefined, FormInternalState.errors = None\<rparr>"]
  by simp

text \<open>
  C5. Descending by \<open>P\<close> and then putting \<open>P\<close> back in front of every path, as the derived
  \<^verbatim>\<open>setErrors\<close> does, gives exactly the errors of \<open>E\<close> whose path begins with \<open>P\<close>, unchanged
  and in their original order.
\<close>

theorem ascend_descend_round_trip:
  "ascendErrors (descendErrors E P) P = filter (\<lambda>e. prefix P (FormError.path e)) E"
proof (induction E)
  case Nil
  show ?case by (simp add: ascendErrors_def descendErrors_def)
next
  case (Cons e E)
  have step: "descendErrors (e # E) P =
      (if prefix P (FormError.path e)
       then e\<lparr>FormError.path := drop (length P) (FormError.path e)\<rparr> # descendErrors E P
       else descendErrors E P)"
    by (simp add: descendErrors_prefix)
  show ?case
  proof (cases "prefix P (FormError.path e)")
    case True
    then have "e\<lparr>FormError.path := P @ drop (length P) (FormError.path e)\<rparr> = e"
      by (simp add: prefix_strip)
    with True Cons.IH show ?thesis
      by (simp add: step ascendErrors_def)
  next
    case False
    with Cons.IH show ?thesis by (simp add: step)
  qed
qed

lemma doPipe_setErrors:
  "setErrors (doPipe f (Bundle ob)) nv =
     setErrors f (Factory (\<lambda>prev.
       ascendErrors (callOrGet nv (descendErrors prev (path_or_empty ob))) (path_or_empty ob)))"
  by (simp add: FormFieldImpl_from_def Let_def)

lemma ascendErrors_prefixed: "e \<in> set (ascendErrors es P) \<Longrightarrow> prefix P (FormError.path e)"
  by (auto simp: ascendErrors_def)

lemma descendErrors_empty_path: "descendErrors es [] = es"
  by (simp add: descendErrors_def)

lemma ascendErrors_empty_path: "ascendErrors es [] = es"
  by (simp add: ascendErrors_def)

text \<open>
  C6, as the code has it. The derived \<^verbatim>\<open>setErrors\<close> calls the parent's \<^verbatim>\<open>setErrors\<close> with an
  updater whose result is the new errors, each path prefixed with the operator's path,
  and nothing else: the new errors come from the given list, or from the given updater
  applied to the descended slice of the parent's previous errors. Every error of the
  parent's new list has a path that begins with the operator's path, so the parent's list
  is replaced and a previous error outside that path is not kept. For an operator without
  a path the updater is the given one on the parent's whole list.
\<close>

theorem derived_setErrors_replaces_parent_list:
  "(\<exists>g. setErrors (doPipe f (Bundle ob)) nv = setErrors f (Factory g)
      \<and> (\<forall>prev. g prev =
             ascendErrors (callOrGet nv (descendErrors prev (path_or_empty ob)))
               (path_or_empty ob)
           \<and> (\<forall>e \<in> set (g prev). prefix (path_or_empty ob) (FormError.path e))))
   \<and> (\<exists>g. setErrors (doPipe f (Bare l)) nv = setErrors f (Factory g)
      \<and> (\<forall>prev. g prev = callOrGet nv prev))"
proof
  show "\<exists>g. setErrors (doPipe f (Bundle ob)) nv = setErrors f (Factory g)
      \<and> (\<forall>prev. g prev =
             ascendErrors (callOrGet nv (descendErrors prev (path_or_empty ob)))
               (path_or_empty ob)
           \<and> (\<forall>e \<in> set (g prev). prefix (path_or_empty ob) (FormError.path e)))"
    by (rule exI [of _ "\<lambda>prev.
          ascendErrors (callOrGet nv (descendErrors prev (path_or_empty ob))) (path_or_empty ob)"])
       (simp add: FormFieldImpl_from_def Let_def ascendErrors_prefixed)
  show "\<exists>g. setErrors (doPipe f (Bare l)) nv = setErrors f (Factory g)
      \<and> (\<forall>prev. g prev = callOrGet nv prev)"
    by (rule exI [of _ "\<lambda>prev. callOrGet nv prev"])
       (simp add: FormFieldImpl_from_def Let_def path_or_empty_def
          descendErrors_empty_path ascendErrors_empty_path)
qed

theorem derived_setErrors_replaces_parent_list_witness:
  "FormInternalState.errors
     (setErrors
        (doPipe (FormFieldImpl_from (rootInput
           \<lparr>FormInternalState.value = Undefined,
            FormInternalState.errors =
              Some [\<lparr>message = ''y'', path = [Key ''c''], temporary = None\<rparr>]\<rparr>))
           (Bundle (FormField_prop ''a'')))
        (Value [\<lparr>message = ''z'', path = [Key ''b''], temporary = None\<rparr>])
        \<lparr>FormInternalState.value = Undefined,
         FormInternalState.errors =
           Some [\<lparr>message = ''y'', path = [Key ''c''], temporary = None\<rparr>]\<rparr>)
   = Some [\<lparr>message = ''z'', path = [Key ''a'', Key ''b''], temporary = None\<rparr>]"
proof -
  let ?s = "\<lparr>FormInternalState.value = Undefined,
            FormInternalState.errors =
              Some [\<lparr>message = ''y'', path = [Key ''c''], temporary = None\<rparr>]\<rparr>"
  let ?z = "\<lparr>message = ''z'', path = [Key ''b''], temporary = None\<rparr>"
  from derived_setErrors_replaces_parent_list
         [where f = "FormFieldImpl_from (rootInput ?s)" and ob = "FormField_prop ''a''"
            and nv = "Value [?z]" and l = "lens id (\<lambda>v s. v)"]
  obtain g where
    call: "setErrors (doPipe (FormFieldImpl_from (rootInput ?s)) (Bundle (FormField_prop ''a'')))
             (Value [?z]) = setErrors (FormFieldImpl_from (rootInput ?s)) (Factory g)"
    and g: "\<And>prev. g prev =
      ascendErrors (callOrGet (Value [?z])
        (descendErrors prev (path_or_empty (FormField_prop ''a'')))) (path_or_empty (FormField_prop ''a''))"
    by blast
  have "FormInternalState.errors (setErrors (FormFieldImpl_from (rootInput ?s)) (Factory g) ?s)
          = Some (g [\<lparr>message = ''y'', path = [Key ''c''], temporary = None\<rparr>])"
    by (simp add: FormFieldImpl_from_def rootInput_def)
  also have "g [\<lparr>message = ''y'', path = [Key ''c''], temporary = None\<rparr>]
          = [\<lparr>message = ''z'', path = [Key ''a'', Key ''b''], temporary = None\<rparr>]"
    by (simp add: g FormField_prop_def path_or_empty_def ascendErrors_def)
  finally show ?thesis
    by (simp only: call)
qed

text \<open>
  C6, as the claim has it, fails. The parent holds \<open>x\<close> at \<open>a.b\<close> and \<open>y\<close> at \<open>c\<close>; the field of
  \<open>a\<close> sets the one error \<open>z\<close> at \<open>b\<close>. The parent's list becomes \<open>z\<close> at \<open>a.b\<close> alone: the
  error \<open>y\<close>, whose path does not begin with \<open>a\<close>, is gone.
\<close>

theorem derived_setErrors_drops_sibling_errors:
  "FormInternalState.errors
     (setErrors
        (doProp (FormFieldImpl_from (rootInput
           \<lparr>FormInternalState.value = Undefined,
            FormInternalState.errors =
              Some [\<lparr>message = ''x'', path = [Key ''a'', Key ''b''], temporary = None\<rparr>,
                    \<lparr>message = ''y'', path = [Key ''c''], temporary = None\<rparr>]\<rparr>)) ''a'')
        (Value [\<lparr>message = ''z'', path = [Key ''b''], temporary = None\<rparr>])
        \<lparr>FormInternalState.value = Undefined,
         FormInternalState.errors =
           Some [\<lparr>message = ''x'', path = [Key ''a'', Key ''b''], temporary = None\<rparr>,
                 \<lparr>message = ''y'', path = [Key ''c''], temporary = None\<rparr>]\<rparr>)
   = Some [\<lparr>message = ''z'', path = [Key ''a'', Key ''b''], temporary = None\<rparr>]
   \<and> \<not> prefix [Key ''a''] (FormError.path \<lparr>message = ''y'', path = [Key ''c''], temporary = None\<rparr>)
   \<and> \<lparr>message = ''y'', path = [Key ''c''], temporary = None\<rparr>
        \<notin> set [\<lparr>message = ''z'', path = [Key ''a'', Key ''b''], temporary = None\<rparr>]"
  by (simp add: doProp_def FormField_prop_def FormFieldImpl_from_def rootInput_def Let_def
        path_or_empty_def ascendErrors_def descendErrors_def)

lemma doPipe_errors_defined:
  "errors (doPipe f op) \<noteq> None"
  by (cases op) (simp_all add: FormFieldImpl_from_def Let_def)

lemma doPipe_errors_of_none:
  "errors f = None \<Longrightarrow> errors (doPipe f op) = Some []"
  by (cases op) (simp_all add: FormFieldImpl_from_def Let_def descendErrors_def)

text \<open>
  C10. A field built from an input without an error list has no list of its own errors
  and neither of its two error flags set, while every field derived from it, by any of
  the composition operations, has a defined error list, the empty one.
\<close>

theorem undefined_errors_derive_empty:
  assumes "errors i = None" and "errors j = None"
  shows "selfErrors (FormFieldImpl_from i) = None
    \<and> \<not> hasErrors (FormFieldImpl_from i)
    \<and> \<not> hasSelfErrors (FormFieldImpl_from i)
    \<and> errors (doPipe (FormFieldImpl_from i) op) = Some []
    \<and> errors (doTransform (FormFieldImpl_from i) to back) = Some []
    \<and> errors (doNarrow (FormFieldImpl_from i) nar) = Some []
    \<and> errors (doProp (FormFieldImpl_from j) key) = Some []
    \<and> errors (doOr (FormFieldImpl_from j) d) = Some []"
proof -
  have i: "errors (FormFieldImpl_from i) = None" and j: "errors (FormFieldImpl_from j) = None"
    using assms by (simp_all add: FormFieldImpl_from_def)
  have "selfErrors (FormFieldImpl_from i) = None"
    "\<not> hasErrors (FormFieldImpl_from i)" "\<not> hasSelfErrors (FormFieldImpl_from i)"
    using assms(1) by (simp_all add: FormFieldImpl_from_def)
  moreover have "errors (doPipe (FormFieldImpl_from i) op) = Some []"
    "errors (doTransform (FormFieldImpl_from i) to back) = Some []"
    "errors (doNarrow (FormFieldImpl_from i) nar) = Some []"
    using i by (simp_all only: doTransform_def doNarrow_def doPipe_errors_of_none)
  moreover have "errors (doProp (FormFieldImpl_from j) key) = Some []"
    "errors (doOr (FormFieldImpl_from j) d) = Some []"
    using j by (simp_all only: doProp_def doOr_def doNarrow_def doPipe_errors_of_none)
  ultimately show ?thesis by simp
qed

theorem undefined_errors_derive_empty_witness:
  "errors (rootInput \<lparr>FormInternalState.value = Undefined, FormInternalState.errors = None\<rparr>) = None
   \<and> selfErrors (FormFieldImpl_from
        (rootInput \<lparr>FormInternalState.value = Undefined, FormInternalState.errors = None\<rparr>)) = None
   \<and> \<not> hasErrors (FormFieldImpl_from
        (rootInput \<lparr>FormInternalState.value = Undefined, FormInternalState.errors = None\<rparr>))
   \<and> errors (doProp (FormFieldImpl_from
        (rootInput \<lparr>FormInternalState.value = Undefined, FormInternalState.errors = None\<rparr>)) ''a'')
       = Some []
   \<and> errors (doOr (FormFieldImpl_from
        (rootInput \<lparr>FormInternalState.value = Undefined, FormInternalState.errors = None\<rparr>)) (Num 0))
       = Some []"
proof -
  let ?i = "rootInput \<lparr>FormInternalState.value = Undefined, FormInternalState.errors = None\<rparr>"
  have none: "errors ?i = None"
    by (simp add: rootInput_def)
  from undefined_errors_derive_empty [OF none none, of "Bare (lens id (\<lambda>v s. v))" id id id "''a''" "Num 0"] none
  show ?thesis by simp
qed

section \<open>The property lens\<close>

lemma put_entry_same: "map_of kvs k = Some v \<Longrightarrow> put_entry k v kvs = kvs"
  by (induction kvs) (auto split: if_splits)

lemma map_of_put_entry: "map_of (put_entry k v kvs) k = Some v"
  by (induction kvs) auto

lemma copy_entries_plain:
  "''__proto__'' \<notin> fst ` set kvs \<Longrightarrow> copy_entries (Obj kvs) = kvs"
  by (induction kvs) (auto simp: copy_entries_def)

lemma prop_get_assoc: "k \<noteq> ''__proto__'' \<Longrightarrow> prop_get k (assoc k v obj) = v"
  by (simp add: assoc_def map_of_put_entry)

text \<open>
  C7, as the code has it. On an object that has the key \<open>k\<close> and has no own property named
  \<^verbatim>\<open>__proto__\<close>, setting through the lens of \<open>prop k\<close> the value viewed through it gives
  the object back.
\<close>

theorem prop_lens_write_back:
  assumes "k \<in> fst ` set kvs" and "''__proto__'' \<notin> fst ` set kvs"
  shows "set_lens (operator (FormField_prop k)) (view (operator (FormField_prop k)) (Obj kvs)) (Obj kvs)
           = Obj kvs"
proof -
  from assms(1) obtain v where v: "map_of kvs k = Some v"
    by (metis domD dom_map_of_conv_image_fst)
  then have seen: "view (operator (FormField_prop k)) (Obj kvs) = v"
    by (simp add: FormField_prop_def lensProp_def view_def)
  from assms have "k \<noteq> ''__proto__''"
    by blast
  then have "assoc k v (Obj kvs) = Obj (put_entry k v kvs)"
    using assms(2) by (simp add: assoc_def copy_entries_plain)
  with v seen show ?thesis
    by (simp add: FormField_prop_def lensProp_def set_lens_def put_entry_same)
qed

theorem prop_lens_write_back_witness:
  "''b'' \<in> fst ` set [(''a'', Num 1), (''b'', Undefined)]
   \<and> ''__proto__'' \<notin> fst ` set [(''a'', Num 1), (''b'', Undefined)]
   \<and> set_lens (operator (FormField_prop ''b''))
        (view (operator (FormField_prop ''b'')) (Obj [(''a'', Num 1), (''b'', Undefined)]))
        (Obj [(''a'', Num 1), (''b'', Undefined)])
      = Obj [(''a'', Num 1), (''b'', Undefined)]"
  using prop_lens_write_back [of "''b''" "[(''a'', Num 1), (''b'', Undefined)]"]
  by simp

text \<open>
  C7, as the claim has it, fails. The object has the own properties \<^verbatim>\<open>__proto__\<close>, with
  the value \<open>1\<close>, and \<open>a\<close>, with the value \<open>2\<close>. Writing back the value read at \<open>a\<close> copies
  the object by assignment, which loses the property \<^verbatim>\<open>__proto__\<close>: the result has \<open>a\<close>
  alone.
\<close>

theorem prop_lens_write_back_drops_proto_key:
  "''a'' \<in> fst ` set [(''__proto__'', Num 1), (''a'', Num 2)]
   \<and> set_lens (operator (FormField_prop ''a''))
        (view (operator (FormField_prop ''a'')) (Obj [(''__proto__'', Num 1), (''a'', Num 2)]))
        (Obj [(''__proto__'', Num 1), (''a'', Num 2)])
      = Obj [(''a'', Num 2)]
   \<and> Obj [(''a'', Num 2)] \<noteq> Obj [(''__proto__'', Num 1), (''a'', Num 2)]"
  by (simp add: FormField_prop_def lensProp_def view_def set_lens_def assoc_def copy_entries_def)

section \<open>Composition\<close>

lemma doPipe_triggers:
  "blur (doPipe f op) = blur f \<and> commit (doPipe f op) = commit f
   \<and> focus (doPipe f op) = focus f \<and> disabled (doPipe f op) = disabled f"
  by (cases op) (simp_all add: FormFieldImpl_from_def Let_def)

lemma doOr_pipes_or: "doOr f d = doPipe f (Bare (FormField_or d))"
proof -
  have "defaultTo d = (\<lambda>value. if nullish value then d else value)"
    by (rule ext) (simp add: defaultTo_def)
  then show ?thesis
    by (simp only: doOr_def doNarrow_def FormField_or_def)
qed

text \<open>
  C9. Whatever the operation (\<open>pipe\<close>, \<open>prop\<close>, \<open>transform\<close>, \<open>narrow\<close>, \<open>or\<close>), the derived
  field has the \<open>blur\<close>, \<open>commit\<close> and \<open>focus\<close> functions and the \<open>disabled\<close> flag of the
  field it is derived from.
\<close>

theorem composition_forwards_triggers:
  "(blur (doPipe f op) = blur f \<and> commit (doPipe f op) = commit f
      \<and> focus (doPipe f op) = focus f \<and> disabled (doPipe f op) = disabled f)
   \<and> (blur (doProp g key) = blur g \<and> commit (doProp g key) = commit g
      \<and> focus (doProp g key) = focus g \<and> disabled (doProp g key) = disabled g)
   \<and> (blur (doTransform f to back) = blur f \<and> commit (doTransform f to back) = commit f
      \<and> focus (doTransform f to back) = focus f \<and> disabled (doTransform f to back) = disabled f)
   \<and> (blur (doNarrow h nar) = blur h \<and> commit (doNarrow h nar) = commit h
      \<and> focus (doNarrow h nar) = focus h \<and> disabled (doNarrow h nar) = disabled h)
   \<and> (blur (doOr g d) = blur g \<and> commit (doOr g d) = commit g
      \<and> focus (doOr g d) = focus g \<and> disabled (doOr g d) = disabled g)"
  by (simp only: doProp_def doTransform_def doNarrow_def doOr_def doPipe_triggers simp_thms)

lemma doPipe_path: "FieldInput.path (doPipe f op) = FieldInput.path f @ FieldInput.path f"
  by (cases op) (simp_all add: FormFieldImpl_from_def Let_def)

text \<open>
  C2, on the code. The path given to a derived field is the parent's path followed by the
  parent's path again; the operator's path is not in it. From a root with the empty path,
  the field of \<open>a\<close> then \<open>b\<close> has the empty path, not \<open>a, b\<close>.
\<close>

theorem derived_path_repeats_parent_path:
  "FieldInput.path
     (doProp (doProp (FormFieldImpl_from (i\<lparr>FieldInput.path := []\<rparr>)) ''a'') ''b'') = []
   \<and> FieldInput.path
     (doProp (doProp (FormFieldImpl_from (i\<lparr>FieldInput.path := []\<rparr>)) ''a'') ''b'')
       \<noteq> [Key ''a'', Key ''b'']"
  by (simp add: doProp_def FormField_prop_def FormFieldImpl_from_def Let_def)

section \<open>Writes\<close>

text \<open>
  C3. With the root value \<open>{a: {b: 1}}\<close>, setting \<open>2\<close> on the field of \<open>a\<close> then \<open>b\<close> calls the
  root input's \<^verbatim>\<open>setValue\<close> with an updater that maps \<open>{a: {b: 1}}\<close> to \<open>{a: {b: 2}}\<close>.
\<close>

theorem write_propagation_example:
  "let root = FormFieldImpl_from (i\<lparr>value := Obj [(''a'', Obj [(''b'', Num 1)])]\<rparr>)
   in \<exists>g. setValue (doProp (doProp root ''a'') ''b'') (Value (Num 2)) = setValue i (Factory g)
         \<and> g (Obj [(''a'', Obj [(''b'', Num 1)])]) = Obj [(''a'', Obj [(''b'', Num 2)])]"
  unfolding Let_def
  by (rule exI [of _ "\<lambda>prev. Obj [(''a'', Obj [(''b'', Num 2)])]"])
     (simp add: doProp_def FormField_prop_def FormFieldImpl_from_def Let_def lensProp_def
        view_def set_lens_def assoc_def copy_entries_def)

text \<open>
  C1, on the code. The fields of \<open>a\<close> and of \<open>c\<close> are derived from the same root, whose
  value is \<open>{a: 1, c: 2}\<close>, and each writes with the updater \<open>n + 1\<close>. A derived
  \<^verbatim>\<open>setValue\<close> applies the updater to the property of the value the update is applied
  to, but sets the result into the root value captured when the field was built. So the
  later update undoes the earlier one: applied in the order \<open>a\<close>, \<open>c\<close> the updates end in
  \<open>{a: 1, c: 3}\<close>, in the order \<open>c\<close>, \<open>a\<close> in \<open>{a: 2, c: 2}\<close>.
\<close>

theorem sibling_updates_lose_writes:
  "(let s = \<lparr>FormInternalState.value = Obj [(''a'', Num 1), (''c'', Num 2)],
              FormInternalState.errors = None\<rparr>;
        root = FormFieldImpl_from (rootInput s);
        fa = doProp root ''a'';
        fc = doProp root ''c''
    in FormInternalState.value (setValue fc (Factory increment) (setValue fa (Factory increment) s))
         = Obj [(''a'', Num 1), (''c'', Num 3)]
     \<and> FormInternalState.value (setValue fa (Factory increment) (setValue fc (Factory increment) s))
         = Obj [(''a'', Num 2), (''c'', Num 2)])"
  by (simp add: Let_def doProp_def FormField_prop_def FormFieldImpl_from_def rootInput_def
        lensProp_def view_def set_lens_def assoc_def copy_entries_def increment_def)

lemma doProp_value: "value (doProp f k) = prop_get k (value f)"
  by (simp add: doProp_def FormField_prop_def FormFieldImpl_from_def Let_def lensProp_def view_def)

lemma doProp_setValue:
  "setValue (doProp f k) nv =
     setValue f (Factory (\<lambda>prev. assoc k (callOrGet nv (prop_get k prev)) (value f)))"
  by (simp add: doProp_def FormField_prop_def FormFieldImpl_from_def Let_def lensProp_def
        view_def set_lens_def)

lemma doOr_value: "value (doOr f d) = (if nullish (value f) then d else value f)"
  by (simp add: doOr_def doNarrow_def FormField_narrow_def FormField_transform_def
        FormFieldImpl_from_def Let_def view_def)

lemma doOr_setValue:
  "setValue (doOr f d) nv =
     setValue f (Factory (\<lambda>prev. callOrGet nv (if nullish prev then d else prev)))"
  by (simp add: doOr_def doNarrow_def FormField_narrow_def FormField_transform_def
        FormFieldImpl_from_def Let_def view_def set_lens_def)

lemma root_setValue:
  "setValue (FormFieldImpl_from (rootInput s)) nv st =
     st\<lparr>FormInternalState.value := callOrGet nv (FormInternalState.value st)\<rparr>"
  by (simp add: FormFieldImpl_from_def rootInput_def)

lemma root_value: "value (FormFieldImpl_from (rootInput s)) = FormInternalState.value s"
  by (simp add: FormFieldImpl_from_def rootInput_def)

text \<open>
  A write whose updater ignores the previous value is read back through the same chain
  of properties, none of them named \<^verbatim>\<open>__proto__\<close>.
\<close>

lemma props_read_back:
  "''__proto__'' \<notin> set ks \<Longrightarrow> (\<And>p. callOrGet nv p = x) \<Longrightarrow>
   value (foldl doProp (FormFieldImpl_from (rootInput
       (setValue (foldl doProp (FormFieldImpl_from (rootInput s)) ks) nv s))) ks) = x"
proof (induction ks arbitrary: nv x rule: rev_induct)
  case Nil
  then show ?case by (simp add: root_setValue root_value)
next
  case (snoc k ks)
  let ?parent = "foldl doProp (FormFieldImpl_from (rootInput s)) ks"
  let ?up = "Factory (\<lambda>prev. assoc k (callOrGet nv (prop_get k prev)) (value ?parent))"
  from snoc.prems(1) have k: "k \<noteq> ''__proto__''" and ks: "''__proto__'' \<notin> set ks"
    by auto
  have const: "\<And>p. callOrGet ?up p = assoc k x (value ?parent)"
    by (simp add: snoc.prems(2))
  have "setValue (foldl doProp (FormFieldImpl_from (rootInput s)) (ks @ [k])) nv s
          = setValue ?parent ?up s"
    by (simp add: doProp_setValue)
  moreover have "value (foldl doProp (FormFieldImpl_from (rootInput (setValue ?parent ?up s))) ks)
          = assoc k x (value ?parent)"
    by (rule snoc.IH [OF ks const])
  ultimately show ?case
    by (simp add: doProp_value prop_get_assoc [OF k])
qed

text \<open>
  C8, as the code has it. Let \<open>F st\<close> be a field as it is derived when the host's state is
  \<open>st\<close>, and \<open>d\<close> a default that is not nullish. Writing \<open>d\<close> through \<open>or d\<close> of the field
  calls the field's own \<^verbatim>\<open>setValue\<close> with the updater that returns \<open>d\<close> whatever the
  previous value is. If the field reads \<open>d\<close> back after that update, then \<open>or d\<close> of the
  field derived again from the state after the write has the value \<open>d\<close>. The root field
  reads back every write, also from the root value \<^verbatim>\<open>undefined\<close>.
\<close>

theorem or_default_write_reads_back:
  assumes "\<not> nullish d"
    and "value (F (setValue (F s) (Factory (\<lambda>prev. d)) s)) = d"
  shows "setValue (doOr (F s) d) (Value d) = setValue (F s) (Factory (\<lambda>prev. d))
    \<and> value (doOr (F (setValue (doOr (F s) d) (Value d) s)) d) = d"
proof -
  have sent: "setValue (doOr (F s) d) (Value d) = setValue (F s) (Factory (\<lambda>prev. d))"
    by (simp add: doOr_setValue)
  have "value (doOr (F (setValue (F s) (Factory (\<lambda>prev. d)) s)) d) = d"
    using assms by (simp add: doOr_value)
  with sent show ?thesis
    by simp
qed

theorem or_default_write_reads_back_witness:
  "\<not> nullish (Str ''n/a'')
   \<and> setValue (doOr (FormFieldImpl_from (rootInput
          \<lparr>FormInternalState.value = Undefined, FormInternalState.errors = None\<rparr>)) (Str ''n/a''))
        (Value (Str ''n/a''))
        \<lparr>FormInternalState.value = Undefined, FormInternalState.errors = None\<rparr>
      = \<lparr>FormInternalState.value = Str ''n/a'', FormInternalState.errors = None\<rparr>
   \<and> value (doOr (FormFieldImpl_from (rootInput
          \<lparr>FormInternalState.value = Str ''n/a'', FormInternalState.errors = None\<rparr>)) (Str ''n/a''))
      = Str ''n/a''"
proof -
  let ?s = "\<lparr>FormInternalState.value = Undefined, FormInternalState.errors = None\<rparr>"
  let ?F = "\<lambda>st :: jsval FormInternalState. FormFieldImpl_from (rootInput st)"
  have d: "\<not> nullish (Str ''n/a'')" by simp
  have reads: "value (?F (setValue (?F ?s) (Factory (\<lambda>prev. Str ''n/a'')) ?s)) = Str ''n/a''"
    by (simp add: root_setValue root_value)
  have w: "setValue (?F ?s) (Factory (\<lambda>prev. Str ''n/a'')) ?s
      = \<lparr>FormInternalState.value = Str ''n/a'', FormInternalState.errors = None\<rparr>"
    by (simp add: root_setValue)
  from or_default_write_reads_back [where F = ?F, OF d reads]
  have sent: "setValue (doOr (?F ?s) (Str ''n/a'')) (Value (Str ''n/a''))
      = setValue (?F ?s) (Factory (\<lambda>prev. Str ''n/a''))"
    and again: "value (doOr (?F (setValue (doOr (?F ?s) (Str ''n/a'')) (Value (Str ''n/a'')) ?s))
      (Str ''n/a'')) = Str ''n/a''"
    by blast+
  from sent w have state: "setValue (doOr (?F ?s) (Str ''n/a'')) (Value (Str ''n/a'')) ?s
      = \<lparr>FormInternalState.value = Str ''n/a'', FormInternalState.errors = None\<rparr>"
    by simp
  from again have "value (doOr (?F \<lparr>FormInternalState.value = Str ''n/a'',
      FormInternalState.errors = None\<rparr>) (Str ''n/a'')) = Str ''n/a''"
    by (simp only: state)
  with d state show ?thesis
    by simp
qed

text \<open>
  C8, as the claim has it, fails. The root value is \<^verbatim>\<open>undefined\<close> and the field is the root
  transformed by \<^verbatim>\<open>v => v === undefined ? undefined : 5\<close> with the identity as the way
  back, so its value is \<^verbatim>\<open>undefined\<close>. Writing \<open>7\<close> through \<open>or 7\<close> of it leaves \<open>7\<close> as the
  root value; the field derived again has the value \<open>5\<close>, and so has \<open>or 7\<close> of it.
\<close>

theorem or_default_write_lost_by_transform:
  "\<not> nullish (Num 7)
   \<and> value (doTransform (FormFieldImpl_from (rootInput
        \<lparr>FormInternalState.value = Undefined, FormInternalState.errors = None\<rparr>))
        five_unless_undefined id) = Undefined
   \<and> setValue (doOr (doTransform (FormFieldImpl_from (rootInput
          \<lparr>FormInternalState.value = Undefined, FormInternalState.errors = None\<rparr>))
          five_unless_undefined id) (Num 7))
        (Value (Num 7))
        \<lparr>FormInternalState.value = Undefined, FormInternalState.errors = None\<rparr>
      = \<lparr>FormInternalState.value = Num 7, FormInternalState.errors = None\<rparr>
   \<and> value (doOr (doTransform (FormFieldImpl_from (rootInput
        \<lparr>FormInternalState.value = Num 7, FormInternalState.errors = None\<rparr>))
        five_unless_undefined id) (Num 7)) = Num 5
   \<and> Num 5 \<noteq> Num 7"
  by (simp add: doOr_def doNarrow_def doTransform_def FormField_narrow_def
        FormField_transform_def FormFieldImpl_from_def rootInput_def Let_def view_def
        set_lens_def five_unless_undefined_def)

end
